theory Spec2Isabelle
  imports Main "HOL-Library.Word" "HOL-Library.Sublist"
begin

section \<open>Data model\<close>

subsection \<open>Python strings and bytes\<close>

text \<open>
  A Python \<open>str\<close> is a sequence of Unicode code points, a \<open>bytes\<close> value a sequence of
  octets. The prompt of \<open>app.py\<close> contains code points beyond ASCII (U+2011, U+2013,
  U+2019), so a \<open>str\<close> is a list of code points, not a list of 8-bit characters.
\<close>

type_synonym pystr = "nat list"
type_synonym byte = "8 word"

text \<open>An ASCII literal of the source, as a \<open>str\<close>.\<close>

definition ascii :: "string \<Rightarrow> pystr" where
  "ascii s = map of_char s"

text \<open>
  \<open>str.isspace\<close> on one code point, as \<open>str.strip()\<close> without argument uses it: the
  ASCII whitespace 0x09-0x0D, 0x1C-0x1F and 0x20, and the Unicode whitespace beyond.
\<close>

definition isspace :: "nat \<Rightarrow> bool" where
  "isspace c =
     ((0x09 \<le> c \<and> c \<le> 0x0D) \<or> (0x1C \<le> c \<and> c \<le> 0x20) \<or> c = 0x85 \<or> c = 0xA0 \<or>
      c = 0x1680 \<or> (0x2000 \<le> c \<and> c \<le> 0x200A) \<or> c = 0x2028 \<or> c = 0x2029 \<or>
      c = 0x202F \<or> c = 0x205F \<or> c = 0x3000)"

text \<open>\<open>s.strip()\<close>: the whitespace at both ends removed.\<close>

definition strip :: "pystr \<Rightarrow> pystr" where
  "strip s = rev (dropWhile isspace (rev (dropWhile isspace s)))"

text \<open>\<open>sep.join(xs)\<close>.\<close>

fun join :: "pystr \<Rightarrow> pystr list \<Rightarrow> pystr" where
  "join sep [] = []"
| "join sep [x] = x"
| "join sep (x # y # ys) = x @ sep @ join sep (y # ys)"

text \<open>ASCII case folding, for case-insensitive search in the (mostly ASCII) prompt.\<close>

definition lower :: "nat \<Rightarrow> nat" where
  "lower c = (if 0x41 \<le> c \<and> c \<le> 0x5A then c + 0x20 else c)"

section \<open>\<open>build_prompt\<close>\<close>

text \<open>
  The local \<open>criteria_description\<close> of \<open>build_prompt\<close>: the source's adjacent string
  literals, one per line, concatenated.
\<close>

definition criteria_description :: pystr where
  "criteria_description =
     ascii ''You are an experienced venture'' @ [0x2011] @ ascii ''capital analyst.  Based on the FNR JUMP '' @
     ascii ''Programme review guidelines, evaluate the following project proposal.  '' @
     ascii ''Assess it against these criteria:\<newline>'' @
     ascii ''1. Novelty '' @ [0x2013] @ ascii '' is the technology or concept novel/disruptive, and is there '' @
     ascii ''enough evidence to show scientific robustness?\<newline>'' @
     ascii ''2. Market/customer understanding and commercialisation strengths (for '' @
     ascii ''commercial projects) '' @ [0x2013] @ ascii '' how well does the team understand the market and '' @
     ascii ''target customers, and what are the plans for bringing the product to market?\<newline>'' @
     ascii ''3. Social needs and methodology (for social impact projects) '' @ [0x2013] @ ascii '' has the '' @
     ascii ''proposal identified a clear societal need and provided a suitable methodology '' @
     ascii ''for addressing it?\<newline>'' @
     ascii ''4. Impact magnitude '' @ [0x2013] @ ascii '' what is the expected scale of impact?\<newline>'' @
     ascii ''5. Intellectual property and validation '' @ [0x2013] @ ascii '' what is the status of IP and '' @
     ascii ''technical validation?\<newline>'' @
     ascii ''6. Team competences and expertise '' @ [0x2013] @ ascii '' assess the team'' @ [0x2019] @ ascii ''s experience and the '' @
     ascii ''fit of any entrepreneur in residence (EiR) if applicable.\<newline>\<newline>'' @
     ascii ''Provide a structured analysis highlighting strengths, weaknesses, risks and '' @
     ascii ''opportunities for each criterion.  Offer recommendations for improvement '' @
     ascii ''but **do not** make a final funding decision.  Do **not** use sensitive '' @
     ascii ''personal attributes (e.g. race, gender, health) in your reasoning.  '' @
     ascii ''Instead focus on objective, project'' @ [0x2011] @ ascii ''related factors.  At the end, '' @
     ascii ''summarise the overall investment outlook.''"

text \<open>The literal text of the f-string between its two fields.\<close>

definition proposal_separator :: pystr where
  "proposal_separator = ascii ''\<newline>\<newline>Here is the proposal:\<newline>\<newline>''"

definition build_prompt :: "pystr \<Rightarrow> pystr" where
  "build_prompt document_text =
     criteria_description @ proposal_separator @ strip document_text"

section \<open>\<open>extract_text\<close>\<close>

subsection \<open>Exceptions\<close>

text \<open>
  \<open>ValueError\<close> is what \<open>io.BytesIO\<close> raises on a closed buffer; \<open>Exception msg\<close> is any
  other exception below \<open>Exception\<close>, with \<open>str(exc) = msg\<close>.
\<close>

datatype exn = ValueError | Exception pystr

subsection \<open>\<open>io.BytesIO\<close>\<close>

record bytesio =
  getvalue :: "byte list"
  tell :: nat
  closed :: bool

definition BytesIO :: "byte list \<Rightarrow> bytesio" where
  "BytesIO initial_bytes = \<lparr>getvalue = initial_bytes, tell = 0, closed = False\<rparr>"

definition seek :: "bytesio \<Rightarrow> nat \<Rightarrow> exn + bytesio" where
  "seek b p = (if closed b then Inl ValueError else Inr (b\<lparr>tell := p\<rparr>))"

text \<open>\<open>b.read()\<close>: the bytes from the current position to the end; the position moves there.\<close>

definition read :: "bytesio \<Rightarrow> (exn + byte list) \<times> bytesio" where
  "read b =
     (if closed b then (Inl ValueError, b)
      else (Inr (drop (tell b) (getvalue b)), b\<lparr>tell := max (tell b) (length (getvalue b))\<rparr>))"

subsection \<open>\<open>bytes.decode("utf-8", errors="ignore")\<close>\<close>

definition is_continuation :: "byte \<Rightarrow> bool" where
  "is_continuation ch = (0x80 \<le> ch \<and> ch \<le> 0xBF)"

text \<open>
  The decoder of the Python runtime with the \<open>ignore\<close> error handler. An invalid start
  byte is dropped; a sequence broken by a byte that cannot continue it is dropped up to
  that byte, where decoding resumes; a sequence cut off by the end of the data is dropped.
  Overlong forms (lead bytes 0xC0, 0xC1, 0xE0 below 0xA0, 0xF0 below 0x90), surrogates
  (0xED from 0xA0) and code points beyond U+10FFFF are invalid.
\<close>

fun decode_utf8_ignore :: "byte list \<Rightarrow> pystr" where
  "decode_utf8_ignore [] = []"
| "decode_utf8_ignore (ch # s) =
     (if ch < 0x80 then unat ch # decode_utf8_ignore s
      else if ch < 0xC2 then decode_utf8_ignore s
      else if ch < 0xE0 then
        (case s of
           [] \<Rightarrow> []
         | ch2 # s2 \<Rightarrow>
             if is_continuation ch2
             then ((unat ch - 0xC0) * 64 + (unat ch2 - 0x80)) # decode_utf8_ignore s2
             else decode_utf8_ignore s)
      else if ch < 0xF0 then
        (case s of
           [] \<Rightarrow> []
         | ch2 # s2 \<Rightarrow>
             if is_continuation ch2
             then (if (if ch2 < 0xA0 then ch = 0xE0 else ch = 0xED) then decode_utf8_ignore s
                   else (case s2 of
                           [] \<Rightarrow> []
                         | ch3 # s3 \<Rightarrow>
                             if is_continuation ch3
                             then ((unat ch - 0xE0) * 4096 + (unat ch2 - 0x80) * 64
                                   + (unat ch3 - 0x80)) # decode_utf8_ignore s3
                             else decode_utf8_ignore s2))
             else decode_utf8_ignore s)
      else if ch < 0xF5 then
        (case s of
           [] \<Rightarrow> []
         | ch2 # s2 \<Rightarrow>
             if is_continuation ch2
             then (if (if ch2 < 0x90 then ch = 0xF0 else ch = 0xF4) then decode_utf8_ignore s
                   else (case s2 of
                           [] \<Rightarrow> []
                         | ch3 # s3 \<Rightarrow>
                             if is_continuation ch3
                             then (case s3 of
                                     [] \<Rightarrow> []
                                   | ch4 # s4 \<Rightarrow>
                                       if is_continuation ch4
                                       then ((unat ch - 0xF0) * 262144 + (unat ch2 - 0x80) * 4096
                                             + (unat ch3 - 0x80) * 64 + (unat ch4 - 0x80))
                                            # decode_utf8_ignore s4
                                       else decode_utf8_ignore s3)
                             else decode_utf8_ignore s2))
             else decode_utf8_ignore s)
      else decode_utf8_ignore s)"

text \<open>\<open>s.encode("utf-8")\<close> of an ASCII literal.\<close>

definition ascii_bytes :: "string \<Rightarrow> byte list" where
  "ascii_bytes s = map of_char s"

subsection \<open>The parsing libraries\<close>

text \<open>
  \<open>pypdf\<close> and \<open>python-docx\<close> are not part of the repository: they are parameters. An
  iterator either stops, yields an item, or raises. \<open>page.extract_text()\<close> returns a
  \<open>str\<close> or \<open>None\<close>, or raises; \<open>p.text\<close> returns a \<open>str\<close>, or raises.
\<close>

datatype 'a iter = Stop | Yield 'a "'a iter" | Raise exn

type_synonym page = "exn + pystr option"
type_synonym para = "exn + pystr"

text \<open>
  A library is \<open>None\<close> when its import failed. Otherwise it is given the buffer and either
  raises or returns the document, whose pages (paragraphs) are then iterated; the buffer
  it returns is the buffer as the library leaves it, read position included.
\<close>

record libs =
  PdfReader :: "(bytesio \<Rightarrow> (exn + page iter) \<times> bytesio) option"
  Document :: "(bytesio \<Rightarrow> (exn + para iter) \<times> bytesio) option"

subsection \<open>The three paths\<close>

text \<open>\<open>x or ""\<close>.\<close>

fun or_empty :: "pystr option \<Rightarrow> pystr" where
  "or_empty None = []"
| "or_empty (Some t) = (if t = [] then [] else t)"

text \<open>
  The loop over \<open>reader.pages\<close>: a page whose extraction raises is skipped; an exception
  of the iteration itself leaves the loop.
\<close>

fun collect_pages :: "page iter \<Rightarrow> pystr list \<Rightarrow> exn + pystr list" where
  "collect_pages Stop pages_text = Inr pages_text"
| "collect_pages (Raise e) pages_text = Inl e"
| "collect_pages (Yield (Inr r) pages) pages_text =
     collect_pages pages (pages_text @ [or_empty r])"
| "collect_pages (Yield (Inl e) pages) pages_text = collect_pages pages pages_text"

text \<open>The comprehension \<open>[p.text for p in document.paragraphs]\<close>: any exception leaves it.\<close>

fun collect_paragraphs :: "para iter \<Rightarrow> exn + pystr list" where
  "collect_paragraphs Stop = Inr []"
| "collect_paragraphs (Raise e) = Inl e"
| "collect_paragraphs (Yield (Inl e) ps) = Inl e"
| "collect_paragraphs (Yield (Inr t) ps) =
     (case collect_paragraphs ps of Inl e \<Rightarrow> Inl e | Inr ts \<Rightarrow> Inr (t # ts))"

definition newline :: pystr where
  "newline = ascii ''\<newline>''"

text \<open>
  The PDF block: \<open>Some text\<close> when it returns \<open>text\<close>, \<open>None\<close> when it is not entered or
  its \<open>except\<close> passes.
\<close>

definition pdf_extraction :: "libs \<Rightarrow> bytesio \<Rightarrow> pystr \<Rightarrow> pystr option \<times> bytesio" where
  "pdf_extraction l file_buffer mime_type =
     (if mime_type = ascii ''application/pdf'' then
        (case PdfReader l of
           None \<Rightarrow> (None, file_buffer)
         | Some reader \<Rightarrow>
             (case reader file_buffer of
                (Inl e, fb) \<Rightarrow> (None, fb)
              | (Inr pages, fb) \<Rightarrow>
                  (case collect_pages pages [] of
                     Inl e \<Rightarrow> (None, fb)
                   | Inr pages_text \<Rightarrow> (Some (strip (join newline pages_text)), fb))))
      else (None, file_buffer))"

definition docx_extraction :: "libs \<Rightarrow> bytesio \<Rightarrow> pystr \<Rightarrow> pystr option \<times> bytesio" where
  "docx_extraction l file_buffer mime_type =
     (if mime_type = ascii ''application/vnd.openxmlformats-officedocument.wordprocessingml.document''
         \<or> mime_type = ascii ''application/msword'' then
        (case Document l of
           None \<Rightarrow> (None, file_buffer)
         | Some document \<Rightarrow>
             (case document file_buffer of
                (Inl e, fb) \<Rightarrow> (None, fb)
              | (Inr ps, fb) \<Rightarrow>
                  (case collect_paragraphs ps of
                     Inl e \<Rightarrow> (None, fb)
                   | Inr paragraphs \<Rightarrow> (Some (strip (join newline paragraphs)), fb))))
      else (None, file_buffer))"

text \<open>The fallback block: the rest of the buffer, decoded; \<open>""\<close> on an exception.\<close>

definition plain_text_fallback :: "bytesio \<Rightarrow> pystr \<times> bytesio" where
  "plain_text_fallback file_buffer =
     (case read file_buffer of
        (Inl e, fb) \<Rightarrow> ([], fb)
      | (Inr text_bytes, fb) \<Rightarrow> (decode_utf8_ignore text_bytes, fb))"

text \<open>
  \<open>extract_text\<close>: the value returned or the exception raised, and the buffer afterwards.
  The only statement outside a \<open>try\<close> that can raise is the \<open>seek(0)\<close> at the top.
\<close>

definition extract_text :: "libs \<Rightarrow> bytesio \<Rightarrow> pystr \<Rightarrow> (exn + pystr) \<times> bytesio" where
  "extract_text l file_buffer mime_type =
     (case seek file_buffer 0 of
        Inl e \<Rightarrow> (Inl e, file_buffer)
      | Inr fb0 \<Rightarrow>
          (case pdf_extraction l fb0 mime_type of
             (Some text, fb1) \<Rightarrow> (Inr text, fb1)
           | (None, fb1) \<Rightarrow>
               (case docx_extraction l fb1 mime_type of
                  (Some text, fb2) \<Rightarrow> (Inr text, fb2)
                | (None, fb2) \<Rightarrow>
                    (case plain_text_fallback fb2 of (text, fb3) \<Rightarrow> (Inr text, fb3)))))"

text \<open>
  The call of \<open>main\<close>, \<open>extract_text(io.BytesIO(bytes), mime_type)\<close>: the spec's
  \<open>extract(bytes, mediaType)\<close>.
\<close>

definition extract_bytes :: "libs \<Rightarrow> byte list \<Rightarrow> pystr \<Rightarrow> (exn + pystr) \<times> bytesio" where
  "extract_bytes l bs mime_type = extract_text l (BytesIO bs) mime_type"

section \<open>\<open>evaluate_proposal\<close>\<close>

text \<open>
  The calls \<open>evaluate_proposal\<close> makes, in order: \<open>st.error(msg)\<close>, the assignment to
  \<open>openai.api_key\<close>, \<open>build_prompt(text)\<close> and \<open>openai.ChatCompletion.create\<close> with the
  prompt as the content of its one message.
\<close>

datatype call = St_error pystr | Set_api_key pystr | Build_prompt pystr | ChatCompletion_create pystr

definition str_exn :: "exn \<Rightarrow> pystr" where
  "str_exn e = (case e of ValueError \<Rightarrow> ascii ''I/O operation on closed file.'' | Exception msg \<Rightarrow> msg)"

text \<open>
  The \<open>openai\<close> module is a parameter: \<open>None\<close> when its import failed; otherwise the
  function from the API key and the prompt to
  \<open>response["choices"][0]["message"]["content"]\<close> or the exception raised on the way.
\<close>

definition evaluate_proposal ::
  "(pystr \<Rightarrow> pystr \<Rightarrow> exn + pystr) option \<Rightarrow> pystr \<Rightarrow> pystr \<Rightarrow> pystr option \<times> call list" where
  "evaluate_proposal openai document_text api_key =
     (case openai of
        None \<Rightarrow>
          (None, [St_error (ascii ''The openai package is not available.  Please ensure it is installed.'')])
      | Some create \<Rightarrow>
          if api_key = [] then (None, [St_error (ascii ''Please provide a valid OpenAI API key.'')])
          else
            (let prompt = build_prompt document_text;
                 calls = [Set_api_key api_key, Build_prompt document_text, ChatCompletion_create prompt]
             in case create api_key prompt of
                  Inr content \<Rightarrow> (Some (strip content), calls)
                | Inl exc \<Rightarrow>
                    (None, calls @ [St_error (ascii ''Error communicating with OpenAI API: '' @ str_exn exc)])))"

section \<open>Documents whose iteration completes\<close>

text \<open>
  The iterator over a document with the pages (paragraphs) \<open>xs\<close>, none of which is lost
  to an exception of the iteration itself.
\<close>

fun iter_of :: "'a list \<Rightarrow> 'a iter" where
  "iter_of [] = Stop"
| "iter_of (x # xs) = Yield x (iter_of xs)"

text \<open>A library that is not installed, and the two libraries missing together.\<close>

definition no_libs :: libs where
  "no_libs = \<lparr>PdfReader = None, Document = None\<rparr>"

text \<open>
  The texts of the pages whose extraction does not raise, in page order: what the loop of
  the PDF block appends.
\<close>

fun page_texts :: "page list \<Rightarrow> pystr list" where
  "page_texts [] = []"
| "page_texts (Inr r # ps) = or_empty r # page_texts ps"
| "page_texts (Inl e # ps) = page_texts ps"

text \<open>
  Concrete libraries for the examples. \<open>pdf_only reader\<close> has \<open>pypdf\<close> installed and
  \<open>python-docx\<close> missing. \<open>reader_raising n\<close> is a \<open>PdfReader\<close> that rejects the file, with
  the stream left at offset \<open>n\<close>; \<open>reader_of_pages n ps\<close> is one that opens a document
  with the pages \<open>ps\<close>, with the stream left at offset \<open>n\<close>.
\<close>

definition pdf_only :: "(bytesio \<Rightarrow> (exn + page iter) \<times> bytesio) \<Rightarrow> libs" where
  "pdf_only reader = \<lparr>PdfReader = Some reader, Document = None\<rparr>"

definition reader_raising :: "nat \<Rightarrow> bytesio \<Rightarrow> (exn + page iter) \<times> bytesio" where
  "reader_raising n fb = (Inl (Exception (ascii ''not a PDF file'')), fb\<lparr>tell := n\<rparr>)"

definition reader_of_pages :: "nat \<Rightarrow> page list \<Rightarrow> bytesio \<Rightarrow> (exn + page iter) \<times> bytesio" where
  "reader_of_pages n ps fb = (Inr (iter_of ps), fb\<lparr>tell := n\<rparr>)"

text \<open>An \<open>openai\<close> module whose request succeeds and answers with the prompt itself.\<close>

definition api_echo :: "pystr \<Rightarrow> pystr \<Rightarrow> exn + pystr" where
  "api_echo api_key prompt = Inr prompt"

section \<open>Properties of \<open>strip\<close>\<close>

text \<open>
  \<open>strip\<close> removes a run of whitespace at each end and nothing else, and what it returns
  neither starts nor ends with whitespace.
\<close>

lemma rev_dropWhile_takeWhile:
  "xs = rev (dropWhile P (rev xs)) @ rev (takeWhile P (rev xs))"
proof -
  have "rev (takeWhile P (rev xs) @ dropWhile P (rev xs)) = rev (rev xs)"
    by (simp only: takeWhile_dropWhile_id)
  then show ?thesis
    by (simp only: rev_append rev_rev_ident)
qed

lemma dropWhile_strip:
  "dropWhile isspace s = strip s @ rev (takeWhile isspace (rev (dropWhile isspace s)))"
  unfolding strip_def by (rule rev_dropWhile_takeWhile)

lemma strip_decomp:
  "s = takeWhile isspace s @ strip s @ rev (takeWhile isspace (rev (dropWhile isspace s)))"
proof -
  have "s = takeWhile isspace s @ dropWhile isspace s"
    by simp
  also have "dropWhile isspace s =
      strip s @ rev (takeWhile isspace (rev (dropWhile isspace s)))"
    by (rule dropWhile_strip)
  finally show ?thesis .
qed

lemma strip_last: "strip s \<noteq> [] \<Longrightarrow> \<not> isspace (last (strip s))"
  by (simp add: strip_def last_rev hd_dropWhile)

lemma strip_hd:
  assumes "strip s \<noteq> []"
  shows "\<not> isspace (hd (strip s))"
proof -
  let ?d = "dropWhile isspace s"
  have d: "?d = strip s @ rev (takeWhile isspace (rev ?d))"
    by (rule dropWhile_strip)
  with assms have "?d \<noteq> []"
    by (metis Nil_is_append_conv)
  then have "\<not> isspace (hd ?d)"
    by (rule hd_dropWhile)
  moreover from d assms have "hd ?d = hd (strip s)"
    by (metis hd_append2)
  ultimately show ?thesis
    by simp
qed

section \<open>Properties of \<open>extract_text\<close>\<close>

subsection \<open>The buffer\<close>

lemma seek_BytesIO: "seek (BytesIO bs) 0 = Inr (BytesIO bs)"
  by (simp add: seek_def BytesIO_def)

lemma read_BytesIO: "read (BytesIO bs) = (Inr bs, (BytesIO bs)\<lparr>tell := length bs\<rparr>)"
  by (simp add: read_def BytesIO_def)

lemma plain_text_fallback_BytesIO:
  "plain_text_fallback (BytesIO bs) =
     (decode_utf8_ignore bs, (BytesIO bs)\<lparr>tell := length bs\<rparr>)"
  by (simp add: plain_text_fallback_def read_BytesIO)

subsection \<open>No exception escapes\<close>

lemma extract_text_total:
  assumes "\<not> closed fb"
  shows "\<exists>text fb'. extract_text l fb mime_type = (Inr text, fb')"
proof -
  from assms obtain fb0 where s: "seek fb 0 = Inr fb0"
    by (simp add: seek_def)
  obtain r1 fb1 where p: "pdf_extraction l fb0 mime_type = (r1, fb1)"
    by (cases "pdf_extraction l fb0 mime_type")
  obtain r2 fb2 where d: "docx_extraction l fb1 mime_type = (r2, fb2)"
    by (cases "docx_extraction l fb1 mime_type")
  obtain t3 fb3 where f: "plain_text_fallback fb2 = (t3, fb3)"
    by (cases "plain_text_fallback fb2")
  show ?thesis
    by (cases r1; cases r2) (simp_all add: extract_text_def s p d f)
qed

text \<open>
  C1. For every byte input, every media type and every behaviour of the two parsing
  libraries (absent, raising, or returning a document whose pages or paragraphs raise),
  \<open>extract_text\<close> on the fresh buffer returns a string: the result is never an exception.
  The model is a total function, so the call also terminates, given that the libraries do.
\<close>

theorem extract_never_raises:
  "\<exists>text fb. extract_bytes l bs mime_type = (Inr text, fb)"
  unfolding extract_bytes_def
  by (rule extract_text_total) (simp add: BytesIO_def)

subsection \<open>The plain-text path\<close>

lemma pdf_extraction_other:
  "mime_type \<noteq> ascii ''application/pdf'' \<Longrightarrow> pdf_extraction l fb mime_type = (None, fb)"
  by (simp add: pdf_extraction_def)

lemma docx_extraction_other:
  "mime_type \<noteq> ascii ''application/vnd.openxmlformats-officedocument.wordprocessingml.document''
   \<Longrightarrow> mime_type \<noteq> ascii ''application/msword''
   \<Longrightarrow> docx_extraction l fb mime_type = (None, fb)"
  by (simp add: docx_extraction_def)

lemma extract_other:
  assumes "mime_type \<noteq> ascii ''application/pdf''"
    and "mime_type \<noteq> ascii ''application/vnd.openxmlformats-officedocument.wordprocessingml.document''"
    and "mime_type \<noteq> ascii ''application/msword''"
  shows "extract_bytes l bs mime_type =
           (Inr (decode_utf8_ignore bs), (BytesIO bs)\<lparr>tell := length bs\<rparr>)"
  using assms
  by (simp add: extract_bytes_def extract_text_def seek_BytesIO pdf_extraction_other
      docx_extraction_other plain_text_fallback_BytesIO)

lemma text_plain_other:
  "ascii ''text/plain'' \<noteq> ascii ''application/pdf''"
  "ascii ''text/plain'' \<noteq>
     ascii ''application/vnd.openxmlformats-officedocument.wordprocessingml.document''"
  "ascii ''text/plain'' \<noteq> ascii ''application/msword''"
  by (simp_all add: ascii_def)

lemma extract_text_plain:
  "extract_bytes l bs (ascii ''text/plain'') =
     (Inr (decode_utf8_ignore bs), (BytesIO bs)\<lparr>tell := length bs\<rparr>)"
  by (rule extract_other) (rule text_plain_other)+

text \<open>
  C8. For a media type other than \<open>application/pdf\<close>, the DOCX type and
  \<open>application/msword\<close>, \<open>extract_text\<close> goes to the fallback directly, whatever the
  libraries are: it returns the permissive UTF-8 decoding of all the bytes. The bytes of
  \<open>"Hello world"\<close> with \<open>text/plain\<close> give \<open>"Hello world"\<close>.
\<close>

theorem extract_other_mime_is_fallback:
  "(mime_type \<noteq> ascii ''application/pdf'' \<and>
    mime_type \<noteq> ascii ''application/vnd.openxmlformats-officedocument.wordprocessingml.document'' \<and>
    mime_type \<noteq> ascii ''application/msword''
    \<longrightarrow> fst (extract_bytes l bs mime_type) = Inr (decode_utf8_ignore bs)) \<and>
   fst (extract_bytes l (ascii_bytes ''Hello world'') (ascii ''text/plain'')) =
     Inr (ascii ''Hello world'')"
proof (intro conjI impI)
  assume "mime_type \<noteq> ascii ''application/pdf'' \<and>
    mime_type \<noteq> ascii ''application/vnd.openxmlformats-officedocument.wordprocessingml.document'' \<and>
    mime_type \<noteq> ascii ''application/msword''"
  then show "fst (extract_bytes l bs mime_type) = Inr (decode_utf8_ignore bs)"
    by (simp add: extract_other)
next
  have "decode_utf8_ignore (ascii_bytes ''Hello world'') = ascii ''Hello world''"
    by (simp add: ascii_bytes_def ascii_def)
  then show "fst (extract_bytes l (ascii_bytes ''Hello world'') (ascii ''text/plain'')) =
      Inr (ascii ''Hello world'')"
    by (simp add: extract_text_plain)
qed

text \<open>
  The theorem at \<open>text/csv\<close> with no library installed, on bytes with an invalid octet:
  the octet 0xFF is dropped.
\<close>

theorem extract_other_mime_is_fallback_witness:
  "ascii ''text/csv'' \<noteq> ascii ''application/pdf'' \<and>
   ascii ''text/csv'' \<noteq>
     ascii ''application/vnd.openxmlformats-officedocument.wordprocessingml.document'' \<and>
   ascii ''text/csv'' \<noteq> ascii ''application/msword'' \<and>
   fst (extract_bytes no_libs [0x61, 0xFF, 0x62] (ascii ''text/csv'')) = Inr [0x61, 0x62]"
proof -
  have ne: "ascii ''text/csv'' \<noteq> ascii ''application/pdf'' \<and>
      ascii ''text/csv'' \<noteq>
        ascii ''application/vnd.openxmlformats-officedocument.wordprocessingml.document'' \<and>
      ascii ''text/csv'' \<noteq> ascii ''application/msword''"
    by (simp add: ascii_def)
  have dec: "decode_utf8_ignore [0x61, 0xFF, 0x62] = [0x61, 0x62]"
    by simp
  from extract_other_mime_is_fallback [of "ascii ''text/csv''" no_libs "[0x61, 0xFF, 0x62]"] ne
  have "fst (extract_bytes no_libs [0x61, 0xFF, 0x62] (ascii ''text/csv'')) =
      Inr (decode_utf8_ignore [0x61, 0xFF, 0x62])"
    by blast
  with ne dec show ?thesis
    by simp
qed

text \<open>
  C2. The claim is that the string returned is always trimmed, and is empty when the paths
  yield only whitespace. The PDF and the DOCX path strip their result; the fallback path
  returns the decoded bytes as they are. On the bytes of \<open>" Hello "\<close> with \<open>text/plain\<close>
  the result keeps both blanks, and on three blanks the result is the three blanks, not
  the empty string.
\<close>

theorem extract_fallback_not_trimmed:
  "fst (extract_bytes l (ascii_bytes '' Hello '') (ascii ''text/plain'')) =
     Inr (ascii '' Hello '') \<and>
   strip (ascii '' Hello '') = ascii ''Hello'' \<and>
   fst (extract_bytes l (ascii_bytes ''   '') (ascii ''text/plain'')) = Inr (ascii ''   '') \<and>
   strip (ascii ''   '') = []"
proof (intro conjI)
  have "decode_utf8_ignore (ascii_bytes '' Hello '') = ascii '' Hello ''"
    by (simp add: ascii_bytes_def ascii_def)
  then show "fst (extract_bytes l (ascii_bytes '' Hello '') (ascii ''text/plain'')) =
      Inr (ascii '' Hello '')"
    by (simp add: extract_text_plain)
  show "strip (ascii '' Hello '') = ascii ''Hello''"
    by (simp add: strip_def ascii_def isspace_def)
  have "decode_utf8_ignore (ascii_bytes ''   '') = ascii ''   ''"
    by (simp add: ascii_bytes_def ascii_def)
  then show "fst (extract_bytes l (ascii_bytes ''   '') (ascii ''text/plain'')) =
      Inr (ascii ''   '')"
    by (simp add: extract_text_plain)
  show "strip (ascii ''   '') = []"
    by (simp add: strip_def ascii_def isspace_def)
qed

subsection \<open>The PDF path\<close>

lemma collect_pages_iter_of:
  "collect_pages (iter_of ps) acc = Inr (acc @ page_texts ps)"
  by (induction ps arbitrary: acc rule: page_texts.induct) simp_all

lemma page_texts_append: "page_texts (ps @ qs) = page_texts ps @ page_texts qs"
  by (induction ps rule: page_texts.induct) simp_all

lemma page_texts_map_Inr: "page_texts (map Inr rs) = map or_empty rs"
  by (induction rs) simp_all

lemma page_texts_skip:
  "page_texts (map Inr rs1 @ [Inl e] @ map Inr rs2) = map or_empty (rs1 @ rs2)"
  by (simp add: page_texts_append page_texts_map_Inr)

lemma pdf_not_docx:
  "ascii ''application/pdf'' \<noteq>
     ascii ''application/vnd.openxmlformats-officedocument.wordprocessingml.document''"
  "ascii ''application/pdf'' \<noteq> ascii ''application/msword''"
  by (simp_all add: ascii_def)

lemma docx_extraction_pdf: "docx_extraction l fb (ascii ''application/pdf'') = (None, fb)"
  by (rule docx_extraction_other) (rule pdf_not_docx)+

lemma extract_pdf_opened:
  assumes "PdfReader l = Some reader"
    and "reader (BytesIO bs) = (Inr pages, fb)"
    and "collect_pages pages [] = Inr pages_text"
  shows "extract_bytes l bs (ascii ''application/pdf'') =
           (Inr (strip (join newline pages_text)), fb)"
  using assms
  by (simp add: extract_bytes_def extract_text_def seek_BytesIO pdf_extraction_def)

text \<open>
  When the open raises, the fallback runs on the buffer as the library left it: it decodes
  the bytes from the position the library stopped at, not from the start.
\<close>

lemma extract_pdf_open_fails:
  assumes "PdfReader l = Some reader"
    and "reader (BytesIO bs) = (Inl e, fb)"
  shows "extract_bytes l bs (ascii ''application/pdf'') =
           (Inr (fst (plain_text_fallback fb)), snd (plain_text_fallback fb))"
  using assms
  by (simp add: extract_bytes_def extract_text_def seek_BytesIO pdf_extraction_def
      docx_extraction_pdf split: prod.splits)

lemma plain_text_fallback_open:
  "\<not> closed fb \<Longrightarrow>
   fst (plain_text_fallback fb) = decode_utf8_ignore (drop (tell fb) (getvalue fb))"
  by (simp add: plain_text_fallback_def read_def)

lemma extract_reader_raising:
  "fst (extract_bytes (pdf_only (reader_raising n)) bs (ascii ''application/pdf'')) =
     Inr (decode_utf8_ignore (drop n bs))"
proof -
  have "PdfReader (pdf_only (reader_raising n)) = Some (reader_raising n)"
    by (simp add: pdf_only_def)
  moreover have "reader_raising n (BytesIO bs) =
      (Inl (Exception (ascii ''not a PDF file'')), (BytesIO bs)\<lparr>tell := n\<rparr>)"
    by (simp add: reader_raising_def)
  ultimately have "extract_bytes (pdf_only (reader_raising n)) bs (ascii ''application/pdf'') =
      (Inr (fst (plain_text_fallback ((BytesIO bs)\<lparr>tell := n\<rparr>))),
       snd (plain_text_fallback ((BytesIO bs)\<lparr>tell := n\<rparr>)))"
    by (rule extract_pdf_open_fails)
  then show ?thesis
    by (simp add: plain_text_fallback_open BytesIO_def)
qed

lemma extract_reader_of_pages:
  "extract_bytes (pdf_only (reader_of_pages n ps)) bs (ascii ''application/pdf'') =
     (Inr (strip (join newline (page_texts ps))), (BytesIO bs)\<lparr>tell := n\<rparr>)"
proof -
  have "PdfReader (pdf_only (reader_of_pages n ps)) = Some (reader_of_pages n ps)"
    by (simp add: pdf_only_def)
  moreover have "reader_of_pages n ps (BytesIO bs) = (Inr (iter_of ps), (BytesIO bs)\<lparr>tell := n\<rparr>)"
    by (simp add: reader_of_pages_def)
  moreover have "collect_pages (iter_of ps) [] = Inr (page_texts ps)"
    by (simp add: collect_pages_iter_of)
  ultimately show ?thesis
    by (rule extract_pdf_opened)
qed

text \<open>
  C9. With media type \<open>application/pdf\<close>, \<open>pypdf\<close> installed, and an open and a page
  iteration that complete (\<open>collect_pages\<close> returns the list \<open>pages_text\<close>),
  \<open>extract_text\<close> returns the stripped newline-join of \<open>pages_text\<close> at once. The buffer
  is returned as the library left it and the raw bytes are never decoded, also when the
  result is the empty string. Two documents: one of three pages with the texts
  \<open>" Title"\<close>, \<open>"Body text"\<close> and \<open>"End \n"\<close>, which gives \<open>"Title\nBody text\nEnd"\<close> and not
  the decoding of its raw bytes; and one of a single page without text, which gives \<open>""\<close>
  although its raw bytes decode to a non-empty string.
\<close>

theorem pdf_success_skips_fallback:
  "(PdfReader l = Some reader \<and> reader (BytesIO bs) = (Inr pages, fb) \<and>
    collect_pages pages [] = Inr pages_text
    \<longrightarrow> extract_bytes l bs (ascii ''application/pdf'') =
          (Inr (strip (join newline pages_text)), fb)) \<and>
   extract_bytes
       (pdf_only (reader_of_pages 7
          [Inr (Some (ascii '' Title'')), Inr (Some (ascii ''Body text'')),
           Inr (Some (ascii ''End \<newline>''))]))
       (ascii_bytes ''%PDF-1.4 three pages'') (ascii ''application/pdf'') =
     (Inr (ascii ''Title\<newline>Body text\<newline>End''),
      (BytesIO (ascii_bytes ''%PDF-1.4 three pages''))\<lparr>tell := 7\<rparr>) \<and>
   decode_utf8_ignore (ascii_bytes ''%PDF-1.4 three pages'') = ascii ''%PDF-1.4 three pages'' \<and>
   extract_bytes (pdf_only (reader_of_pages 3 [Inr (Some [])])) (ascii_bytes ''%PDF-1.4 scan'')
       (ascii ''application/pdf'') =
     (Inr [], (BytesIO (ascii_bytes ''%PDF-1.4 scan''))\<lparr>tell := 3\<rparr>) \<and>
   decode_utf8_ignore (ascii_bytes ''%PDF-1.4 scan'') = ascii ''%PDF-1.4 scan''"
proof (intro conjI impI)
  assume "PdfReader l = Some reader \<and> reader (BytesIO bs) = (Inr pages, fb) \<and>
    collect_pages pages [] = Inr pages_text"
  then show "extract_bytes l bs (ascii ''application/pdf'') =
      (Inr (strip (join newline pages_text)), fb)"
    by (simp add: extract_pdf_opened)
next
  have "strip (join newline (page_texts
      [Inr (Some (ascii '' Title'')), Inr (Some (ascii ''Body text'')),
       Inr (Some (ascii ''End \<newline>''))])) = ascii ''Title\<newline>Body text\<newline>End''"
    by (simp add: strip_def newline_def ascii_def isspace_def)
  then show "extract_bytes
      (pdf_only (reader_of_pages 7
         [Inr (Some (ascii '' Title'')), Inr (Some (ascii ''Body text'')),
          Inr (Some (ascii ''End \<newline>''))]))
      (ascii_bytes ''%PDF-1.4 three pages'') (ascii ''application/pdf'') =
      (Inr (ascii ''Title\<newline>Body text\<newline>End''),
       (BytesIO (ascii_bytes ''%PDF-1.4 three pages''))\<lparr>tell := 7\<rparr>)"
    by (simp only: extract_reader_of_pages)
next
  show "decode_utf8_ignore (ascii_bytes ''%PDF-1.4 three pages'') = ascii ''%PDF-1.4 three pages''"
    by (simp add: ascii_bytes_def ascii_def)
next
  have "strip (join newline (page_texts [Inr (Some [])])) = []"
    by (simp add: strip_def)
  then show "extract_bytes (pdf_only (reader_of_pages 3 [Inr (Some [])]))
      (ascii_bytes ''%PDF-1.4 scan'') (ascii ''application/pdf'') =
      (Inr [], (BytesIO (ascii_bytes ''%PDF-1.4 scan''))\<lparr>tell := 3\<rparr>)"
    by (simp only: extract_reader_of_pages)
next
  show "decode_utf8_ignore (ascii_bytes ''%PDF-1.4 scan'') = ascii ''%PDF-1.4 scan''"
    by (simp add: ascii_bytes_def ascii_def)
qed

text \<open>
  The theorem on a PDF of three pages, with the texts \<open>" A "\<close>, \<open>None\<close> and \<open>"B\n"\<close>: the page
  without text gives an empty line, the blanks inside stay, and the whitespace at the two
  ends goes. The result is \<open>"A \n\nB"\<close>, and the stream is still at offset 2, where the
  reader left it.
\<close>

theorem pdf_success_skips_fallback_witness:
  "PdfReader (pdf_only (reader_of_pages 2
       [Inr (Some (ascii '' A '')), Inr None, Inr (Some (ascii ''B\<newline>''))])) =
     Some (reader_of_pages 2
       [Inr (Some (ascii '' A '')), Inr None, Inr (Some (ascii ''B\<newline>''))]) \<and>
   reader_of_pages 2 [Inr (Some (ascii '' A '')), Inr None, Inr (Some (ascii ''B\<newline>''))]
       (BytesIO (ascii_bytes ''%PDF'')) =
     (Inr (Yield (Inr (Some (ascii '' A ''))) (Yield (Inr None)
             (Yield (Inr (Some (ascii ''B\<newline>''))) Stop))),
      (BytesIO (ascii_bytes ''%PDF''))\<lparr>tell := 2\<rparr>) \<and>
   collect_pages (Yield (Inr (Some (ascii '' A ''))) (Yield (Inr None)
       (Yield (Inr (Some (ascii ''B\<newline>''))) Stop))) [] =
     Inr [ascii '' A '', [], ascii ''B\<newline>''] \<and>
   extract_bytes (pdf_only (reader_of_pages 2
       [Inr (Some (ascii '' A '')), Inr None, Inr (Some (ascii ''B\<newline>''))]))
       (ascii_bytes ''%PDF'') (ascii ''application/pdf'') =
     (Inr (ascii ''A \<newline>\<newline>B''), (BytesIO (ascii_bytes ''%PDF''))\<lparr>tell := 2\<rparr>)"
proof -
  let ?ps = "[Inr (Some (ascii '' A '')), Inr None, Inr (Some (ascii ''B\<newline>''))] :: page list"
  let ?it = "Yield (Inr (Some (ascii '' A ''))) (Yield (Inr None)
      (Yield (Inr (Some (ascii ''B\<newline>''))) Stop)) :: page iter"
  have h1: "PdfReader (pdf_only (reader_of_pages 2 ?ps)) = Some (reader_of_pages 2 ?ps)"
    by (simp add: pdf_only_def)
  have h2: "reader_of_pages 2 ?ps (BytesIO (ascii_bytes ''%PDF'')) =
      (Inr ?it, (BytesIO (ascii_bytes ''%PDF''))\<lparr>tell := 2\<rparr>)"
    by (simp add: reader_of_pages_def)
  have h3: "collect_pages ?it [] = Inr [ascii '' A '', [], ascii ''B\<newline>'']"
    by (simp add: ascii_def)
  have s: "strip (join newline [ascii '' A '', [], ascii ''B\<newline>'']) = ascii ''A \<newline>\<newline>B''"
    by (simp add: strip_def newline_def ascii_def isspace_def)
  from pdf_success_skips_fallback
    [of "pdf_only (reader_of_pages 2 ?ps)" "reader_of_pages 2 ?ps" "ascii_bytes ''%PDF''" ?it
        "(BytesIO (ascii_bytes ''%PDF''))\<lparr>tell := 2\<rparr>" "[ascii '' A '', [], ascii ''B\<newline>'']"]
    h1 h2 h3
  have "extract_bytes (pdf_only (reader_of_pages 2 ?ps)) (ascii_bytes ''%PDF'')
      (ascii ''application/pdf'') =
      (Inr (strip (join newline [ascii '' A '', [], ascii ''B\<newline>''])),
       (BytesIO (ascii_bytes ''%PDF''))\<lparr>tell := 2\<rparr>)"
    by blast
  with h1 h2 h3 s show ?thesis
    by simp
qed

text \<open>
  C5, as amended. For a PDF that opens, with \<open>N\<close> pages of which page \<open>k\<close> raises on
  extraction and the others return (here the pages before \<open>k\<close> return \<open>rs1\<close>, those after
  return \<open>rs2\<close>; a page that returns \<open>None\<close> counts as the empty text), \<open>extract_text\<close>
  returns the newline-join of the other pages' texts, in page order, with the whitespace
  at both ends of the joined text stripped. Page \<open>k\<close> contributes nothing and no exception
  is raised.
\<close>

theorem pdf_failed_page_is_skipped:
  assumes "PdfReader l = Some reader"
    and "reader (BytesIO bs) = (Inr (iter_of (map Inr rs1 @ [Inl e] @ map Inr rs2)), fb)"
  shows "extract_bytes l bs (ascii ''application/pdf'') =
           (Inr (strip (join newline (map or_empty (rs1 @ rs2)))), fb)"
proof -
  have "collect_pages (iter_of (map Inr rs1 @ [Inl e] @ map Inr rs2)) [] =
      Inr (map or_empty (rs1 @ rs2))"
    by (simp only: collect_pages_iter_of page_texts_skip append_Nil)
  with assms show ?thesis
    by (rule extract_pdf_opened)
qed

text \<open>Three pages, the second of which raises: the result is \<open>"Intro\nEnd"\<close>.\<close>

theorem pdf_failed_page_is_skipped_witness:
  "PdfReader (pdf_only (reader_of_pages 0
       [Inr (Some (ascii ''Intro'')), Inl (Exception (ascii ''bad page'')), Inr (Some (ascii ''End''))])) =
     Some (reader_of_pages 0
       [Inr (Some (ascii ''Intro'')), Inl (Exception (ascii ''bad page'')), Inr (Some (ascii ''End''))]) \<and>
   reader_of_pages 0
       [Inr (Some (ascii ''Intro'')), Inl (Exception (ascii ''bad page'')), Inr (Some (ascii ''End''))]
       (BytesIO []) =
     (Inr (iter_of (map Inr [Some (ascii ''Intro'')] @ [Inl (Exception (ascii ''bad page''))]
                    @ map Inr [Some (ascii ''End'')])), BytesIO []) \<and>
   extract_bytes (pdf_only (reader_of_pages 0
       [Inr (Some (ascii ''Intro'')), Inl (Exception (ascii ''bad page'')), Inr (Some (ascii ''End''))]))
       [] (ascii ''application/pdf'') =
     (Inr (ascii ''Intro\<newline>End''), BytesIO [])"
proof -
  let ?ps = "[Inr (Some (ascii ''Intro'')), Inl (Exception (ascii ''bad page'')),
              Inr (Some (ascii ''End''))] :: page list"
  have h1: "PdfReader (pdf_only (reader_of_pages 0 ?ps)) = Some (reader_of_pages 0 ?ps)"
    by (simp add: pdf_only_def)
  have h2: "reader_of_pages 0 ?ps (BytesIO []) =
      (Inr (iter_of (map Inr [Some (ascii ''Intro'')] @ [Inl (Exception (ascii ''bad page''))]
                     @ map Inr [Some (ascii ''End'')])), BytesIO [])"
    by (simp add: reader_of_pages_def BytesIO_def)
  have s: "strip (join newline (map or_empty ([Some (ascii ''Intro'')] @ [Some (ascii ''End'')]))) =
      ascii ''Intro\<newline>End''"
    by (simp add: strip_def newline_def ascii_def isspace_def)
  from pdf_failed_page_is_skipped [OF h1 h2] s
  have "extract_bytes (pdf_only (reader_of_pages 0 ?ps)) [] (ascii ''application/pdf'') =
      (Inr (ascii ''Intro\<newline>End''), BytesIO [])"
    by simp
  with h1 h2 show ?thesis
    by blast
qed

text \<open>
  C5 as stated, without the strip, fails: two pages, the first with the text \<open>" a"\<close>, the
  second raising. The join of the other pages' texts is \<open>" a"\<close>; the result is \<open>"a"\<close>.
\<close>

theorem pdf_failed_page_join_counterexample:
  "fst (extract_bytes (pdf_only (reader_of_pages 0 [Inr (Some (ascii '' a'')), Inl (Exception [])]))
          [] (ascii ''application/pdf'')) \<noteq>
   Inr (join newline (map or_empty [Some (ascii '' a'')]))"
proof -
  have "strip (join newline (page_texts [Inr (Some (ascii '' a'')), Inl (Exception [])])) =
      ascii ''a''"
    by (simp add: strip_def ascii_def isspace_def)
  moreover have "join newline (map or_empty [Some (ascii '' a'')]) \<noteq> ascii ''a''"
    by (simp add: ascii_def)
  ultimately show ?thesis
    by (simp add: extract_reader_of_pages)
qed

text \<open>
  C3. The claim is that the stream is back at the start before each fallback attempt, so
  that the fallback decodes all the bytes. \<open>extract_text\<close> seeks once, before the first
  attempt, and not again. With a \<open>PdfReader\<close> that has read the five bytes of the header
  when it raises, the fallback starts at offset 5: on the bytes of \<open>"Hello world"\<close> it
  returns \<open>" world"\<close>.
\<close>

theorem fallback_reads_from_parser_offset:
  "tell (snd (pdf_extraction (pdf_only (reader_raising 5))
                (BytesIO (ascii_bytes ''Hello world'')) (ascii ''application/pdf''))) = 5 \<and>
   fst (extract_bytes (pdf_only (reader_raising 5)) (ascii_bytes ''Hello world'')
          (ascii ''application/pdf'')) = Inr (ascii '' world'') \<and>
   decode_utf8_ignore (ascii_bytes ''Hello world'') = ascii ''Hello world''"
proof (intro conjI)
  show "tell (snd (pdf_extraction (pdf_only (reader_raising 5))
      (BytesIO (ascii_bytes ''Hello world'')) (ascii ''application/pdf''))) = 5"
    by (simp add: pdf_extraction_def pdf_only_def reader_raising_def)
  have "decode_utf8_ignore (drop 5 (ascii_bytes ''Hello world'')) = ascii '' world''"
    by (simp add: ascii_bytes_def ascii_def)
  then show "fst (extract_bytes (pdf_only (reader_raising 5)) (ascii_bytes ''Hello world'')
      (ascii ''application/pdf'')) = Inr (ascii '' world'')"
    by (simp add: extract_reader_raising)
  show "decode_utf8_ignore (ascii_bytes ''Hello world'') = ascii ''Hello world''"
    by (simp add: ascii_bytes_def ascii_def)
qed

text \<open>
  C4. The claim is that a PDF that fails to open gives the fallback decoding of the same
  bytes, empty only when that decoding is. With a \<open>PdfReader\<close> that has sought to the end
  of the 18 bytes \<open>"%PDF-1.7 truncated"\<close> when it raises, \<open>extract_text\<close> returns \<open>""\<close>,
  while the same bytes with \<open>text/plain\<close> give all 18 characters.
\<close>

theorem malformed_pdf_not_full_fallback:
  "fst (extract_bytes (pdf_only (reader_raising 18)) (ascii_bytes ''%PDF-1.7 truncated'')
          (ascii ''application/pdf'')) = Inr [] \<and>
   fst (extract_bytes (pdf_only (reader_raising 18)) (ascii_bytes ''%PDF-1.7 truncated'')
          (ascii ''text/plain'')) = Inr (ascii ''%PDF-1.7 truncated'')"
proof (intro conjI)
  have "decode_utf8_ignore (drop 18 (ascii_bytes ''%PDF-1.7 truncated'')) = []"
    by (simp add: ascii_bytes_def)
  then show "fst (extract_bytes (pdf_only (reader_raising 18))
      (ascii_bytes ''%PDF-1.7 truncated'') (ascii ''application/pdf'')) = Inr []"
    by (simp add: extract_reader_raising)
  have "decode_utf8_ignore (ascii_bytes ''%PDF-1.7 truncated'') = ascii ''%PDF-1.7 truncated''"
    by (simp add: ascii_bytes_def ascii_def)
  then show "fst (extract_bytes (pdf_only (reader_raising 18))
      (ascii_bytes ''%PDF-1.7 truncated'') (ascii ''text/plain'')) =
      Inr (ascii ''%PDF-1.7 truncated'')"
    by (simp add: extract_text_plain)
qed

section \<open>Properties of \<open>build_prompt\<close>\<close>

lemma sublist_in_right: "sublist xs zs \<Longrightarrow> sublist xs (ys @ zs)"
  by (auto simp: sublist_append)

lemma sublist_self: "sublist xs xs"
  by simp

lemma strip_Nil: "strip [] = []"
  by (simp add: strip_def)

lemma build_prompt_split:
  "build_prompt t = (criteria_description @ proposal_separator) @ strip t"
  by (simp add: build_prompt_def)

text \<open>The six criteria and the constraints are literal pieces of the header.\<close>

lemma header_criteria:
  "sublist (ascii ''1. Novelty '') criteria_description"
  "sublist (ascii ''2. Market/customer understanding and commercialisation strengths (for '')
     criteria_description"
  "sublist (ascii ''3. Social needs and methodology (for social impact projects) '')
     criteria_description"
  "sublist (ascii ''4. Impact magnitude '') criteria_description"
  "sublist (ascii ''5. Intellectual property and validation '') criteria_description"
  "sublist (ascii ''6. Team competences and expertise '') criteria_description"
  unfolding criteria_description_def
  by (rule sublist_append_rightI | rule sublist_in_right)+

lemma header_constraints:
  "sublist (ascii ''Provide a structured analysis highlighting strengths, weaknesses, risks and '')
     criteria_description"
  "sublist (ascii ''opportunities for each criterion.  Offer recommendations for improvement '')
     criteria_description"
  "sublist (ascii ''but **do not** make a final funding decision.  Do **not** use sensitive '')
     criteria_description"
  "sublist (ascii ''personal attributes (e.g. race, gender, health) in your reasoning.  '')
     criteria_description"
  "sublist (ascii ''summarise the overall investment outlook.'') criteria_description"
  unfolding criteria_description_def
  by (rule sublist_append_rightI | rule sublist_in_right | rule sublist_self)+

lemma novelty_lower:
  "map lower (ascii ''1. Novelty '') = ascii ''1. '' @ ascii ''novelty'' @ ascii '' ''"
  by (simp add: ascii_def lower_def)

lemma header_novelty: "sublist (ascii ''novelty'') (map lower criteria_description)"
  unfolding criteria_description_def map_append novelty_lower append_assoc
  by (rule sublist_append_rightI | rule sublist_in_right)+

text \<open>
  C6. For every text, \<open>build_prompt\<close> is the constant header \<open>criteria_description\<close>, then
  the literal separator, then the text stripped of the whitespace at its ends: the text is
  a run of whitespace, the stripped text, and a run of whitespace, and the stripped text,
  when not empty, neither starts nor ends with whitespace. The header holds the six
  numbered criteria and the constraints, and the token \<open>novelty\<close> when case is ignored.
  \<open>build_prompt("")\<close> contains the whole header, and for every text the stripped text is
  at the end of the prompt; \<open>"Proposal about X"\<close> is at the end of its prompt. The text
  \<open>" \n Proposal about X\n  "\<close> gives the prompt of \<open>"Proposal about X"\<close>, and a text of
  whitespace alone gives the prompt of \<open>""\<close>.
\<close>

theorem build_prompt_header_separator_text:
  "build_prompt t = criteria_description @ proposal_separator @ strip t \<and>
   t = takeWhile isspace t @ strip t @ rev (takeWhile isspace (rev (dropWhile isspace t))) \<and>
   (strip t \<noteq> [] \<longrightarrow> \<not> isspace (hd (strip t)) \<and> \<not> isspace (last (strip t))) \<and>
   build_prompt (ascii '' \<newline> Proposal about X\<newline>  '') =
     criteria_description @ proposal_separator @ ascii ''Proposal about X'' \<and>
   build_prompt (ascii '' \<newline>  '') = criteria_description @ proposal_separator \<and>
   sublist criteria_description (build_prompt []) \<and>
   build_prompt [] = criteria_description @ proposal_separator \<and>
   prefix criteria_description (build_prompt t) \<and>
   suffix (strip t) (build_prompt t) \<and>
   suffix (ascii ''Proposal about X'') (build_prompt (ascii ''Proposal about X'')) \<and>
   sublist (ascii ''novelty'') (map lower criteria_description) \<and>
   sublist (ascii ''1. Novelty '') criteria_description \<and>
   sublist (ascii ''2. Market/customer understanding and commercialisation strengths (for '')
     criteria_description \<and>
   sublist (ascii ''3. Social needs and methodology (for social impact projects) '')
     criteria_description \<and>
   sublist (ascii ''4. Impact magnitude '') criteria_description \<and>
   sublist (ascii ''5. Intellectual property and validation '') criteria_description \<and>
   sublist (ascii ''6. Team competences and expertise '') criteria_description \<and>
   sublist (ascii ''Provide a structured analysis highlighting strengths, weaknesses, risks and '')
     criteria_description \<and>
   sublist (ascii ''opportunities for each criterion.  Offer recommendations for improvement '')
     criteria_description \<and>
   sublist (ascii ''but **do not** make a final funding decision.  Do **not** use sensitive '')
     criteria_description \<and>
   sublist (ascii ''personal attributes (e.g. race, gender, health) in your reasoning.  '')
     criteria_description \<and>
   sublist (ascii ''summarise the overall investment outlook.'') criteria_description"
proof -
  have a: "build_prompt t = criteria_description @ proposal_separator @ strip t"
    by (simp add: build_prompt_def)
  have a1: "t = takeWhile isspace t @ strip t @
      rev (takeWhile isspace (rev (dropWhile isspace t)))"
    by (rule strip_decomp)
  have a2: "strip t \<noteq> [] \<longrightarrow> \<not> isspace (hd (strip t)) \<and> \<not> isspace (last (strip t))"
    by (simp add: strip_hd strip_last)
  have "strip (ascii '' \<newline> Proposal about X\<newline>  '') = ascii ''Proposal about X''"
    by (simp add: strip_def ascii_def isspace_def)
  then have a3: "build_prompt (ascii '' \<newline> Proposal about X\<newline>  '') =
      criteria_description @ proposal_separator @ ascii ''Proposal about X''"
    by (simp only: build_prompt_def)
  have "strip (ascii '' \<newline>  '') = []"
    by (simp add: strip_def ascii_def isspace_def)
  then have a4: "build_prompt (ascii '' \<newline>  '') = criteria_description @ proposal_separator"
    by (simp only: build_prompt_def append_Nil2)
  have b: "build_prompt [] = criteria_description @ proposal_separator"
    by (simp add: build_prompt_def strip_Nil)
  have c: "sublist criteria_description (build_prompt [])"
    unfolding b by (rule sublist_append_rightI)
  have d: "prefix criteria_description (build_prompt t)"
    unfolding a by (rule prefixI) (rule refl)
  have e: "suffix (strip t) (build_prompt t)"
    unfolding build_prompt_split by (rule suffixI) (rule refl)
  have px: "strip (ascii ''Proposal about X'') = ascii ''Proposal about X''"
    by (simp add: strip_def ascii_def isspace_def)
  have "suffix (strip (ascii ''Proposal about X'')) (build_prompt (ascii ''Proposal about X''))"
    unfolding build_prompt_split by (rule suffixI) (rule refl)
  then have f: "suffix (ascii ''Proposal about X'') (build_prompt (ascii ''Proposal about X''))"
    by (simp only: px)
  from a a1 a2 a3 a4 b c d e f header_novelty header_criteria header_constraints show ?thesis
    by (intro conjI)
qed

text \<open>
  The theorem on \<open>"  Plan C\n"\<close>: the stripped text is not empty, it starts with \<open>P\<close> and
  ends with \<open>C\<close>, and the prompt ends with \<open>"Plan C"\<close>.
\<close>

theorem build_prompt_header_separator_text_witness:
  "strip (ascii ''  Plan C\<newline>'') \<noteq> [] \<and>
   \<not> isspace (hd (strip (ascii ''  Plan C\<newline>''))) \<and>
   \<not> isspace (last (strip (ascii ''  Plan C\<newline>''))) \<and>
   hd (strip (ascii ''  Plan C\<newline>'')) = 0x50 \<and>
   last (strip (ascii ''  Plan C\<newline>'')) = 0x43 \<and>
   build_prompt (ascii ''  Plan C\<newline>'') =
     criteria_description @ proposal_separator @ ascii ''Plan C''"
proof -
  have s: "strip (ascii ''  Plan C\<newline>'') = ascii ''Plan C''"
    by (simp add: strip_def ascii_def isspace_def)
  have ne: "strip (ascii ''  Plan C\<newline>'') \<noteq> []"
    unfolding s by (simp add: ascii_def)
  have hl: "hd (ascii ''Plan C'') = 0x50 \<and> last (ascii ''Plan C'') = 0x43"
    by (simp add: ascii_def)
  from build_prompt_header_separator_text [of "ascii ''  Plan C\<newline>''"] ne
  have "\<not> isspace (hd (strip (ascii ''  Plan C\<newline>'')))"
    and "\<not> isspace (last (strip (ascii ''  Plan C\<newline>'')))"
    and "build_prompt (ascii ''  Plan C\<newline>'') =
      criteria_description @ proposal_separator @ strip (ascii ''  Plan C\<newline>'')"
    by blast+
  with ne hl show ?thesis
    by (simp add: s)
qed

text \<open>
  C7. \<open>build_prompt\<close> is a function of its argument alone: equal texts give equal prompts.
  For any two texts the prompts agree on their first \<open>length (header @ separator)\<close>
  code points, which are the header and the separator themselves, and what follows is the
  stripped text: two prompts can differ in the trailing segment only.
\<close>

theorem build_prompt_deterministic_fixed_header:
  "(t1 = t2 \<longrightarrow> build_prompt t1 = build_prompt t2) \<and>
   take (length (criteria_description @ proposal_separator)) (build_prompt t1) =
     criteria_description @ proposal_separator \<and>
   take (length (criteria_description @ proposal_separator)) (build_prompt t2) =
     criteria_description @ proposal_separator \<and>
   drop (length (criteria_description @ proposal_separator)) (build_prompt t1) = strip t1 \<and>
   drop (length (criteria_description @ proposal_separator)) (build_prompt t2) = strip t2"
  unfolding build_prompt_split
  by (intro conjI impI) simp_all

text \<open>
  The theorem on \<open>"Plan A"\<close> twice, and on \<open>"Plan A"\<close> and \<open>"Plan B "\<close>: the same header,
  and the trailing segment \<open>"Plan B"\<close>.
\<close>

theorem build_prompt_deterministic_fixed_header_witness:
  "ascii ''Plan A'' = ascii ''Plan A'' \<and>
   build_prompt (ascii ''Plan A'') = build_prompt (ascii ''Plan A'') \<and>
   take (length (criteria_description @ proposal_separator)) (build_prompt (ascii ''Plan A'')) =
     take (length (criteria_description @ proposal_separator)) (build_prompt (ascii ''Plan B '')) \<and>
   drop (length (criteria_description @ proposal_separator)) (build_prompt (ascii ''Plan B '')) =
     ascii ''Plan B''"
proof -
  have s: "strip (ascii ''Plan B '') = ascii ''Plan B''"
    by (simp add: strip_def ascii_def isspace_def)
  from build_prompt_deterministic_fixed_header [of "ascii ''Plan A''" "ascii ''Plan A''"]
  have same: "build_prompt (ascii ''Plan A'') = build_prompt (ascii ''Plan A'')"
    by blast
  from build_prompt_deterministic_fixed_header [of "ascii ''Plan A''" "ascii ''Plan B ''"]
  have "take (length (criteria_description @ proposal_separator)) (build_prompt (ascii ''Plan A'')) =
      take (length (criteria_description @ proposal_separator)) (build_prompt (ascii ''Plan B ''))"
    and "drop (length (criteria_description @ proposal_separator)) (build_prompt (ascii ''Plan B '')) =
      strip (ascii ''Plan B '')"
    by simp_all
  with same s show ?thesis
    by simp
qed

section \<open>Properties of \<open>evaluate_proposal\<close>\<close>

text \<open>With the module present and a key, the prompt is built and the request is made.\<close>

lemma evaluate_proposal_request:
  "api_key \<noteq> [] \<Longrightarrow> create api_key (build_prompt d) = Inr content \<Longrightarrow>
   evaluate_proposal (Some create) d api_key =
     (Some (strip content),
      [Set_api_key api_key, Build_prompt d, ChatCompletion_create (build_prompt d)])"
  by (simp add: evaluate_proposal_def)

text \<open>
  C10. For every document text, if the \<open>openai\<close> module is missing or the API key is the
  empty string, \<open>evaluate_proposal\<close> returns \<open>None\<close>, and the only call it makes is one
  \<open>st.error\<close>: no prompt is built and no request is made.
\<close>

theorem evaluate_proposal_guards:
  assumes "openai = None \<or> api_key = []"
  shows "fst (evaluate_proposal openai document_text api_key) = None \<and>
    (\<exists>msg. snd (evaluate_proposal openai document_text api_key) = [St_error msg]) \<and>
    (\<forall>p. Build_prompt p \<notin> set (snd (evaluate_proposal openai document_text api_key)) \<and>
         ChatCompletion_create p \<notin> set (snd (evaluate_proposal openai document_text api_key)))"
  using assms
  by (auto simp: evaluate_proposal_def split: option.splits)

text \<open>The theorem with the module missing, and with the module present and an empty key.\<close>

theorem evaluate_proposal_guards_witness:
  "((None :: (pystr \<Rightarrow> pystr \<Rightarrow> exn + pystr) option) = None \<or> ascii ''sk-1'' = []) \<and>
   fst (evaluate_proposal None (ascii ''text'') (ascii ''sk-1'')) = None \<and>
   ChatCompletion_create (build_prompt (ascii ''text'')) \<notin>
     set (snd (evaluate_proposal None (ascii ''text'') (ascii ''sk-1''))) \<and>
   (Some api_echo = None \<or> ([] :: pystr) = []) \<and>
   fst (evaluate_proposal (Some api_echo) (ascii ''text'') []) = None \<and>
   ChatCompletion_create (build_prompt (ascii ''text'')) \<notin>
     set (snd (evaluate_proposal (Some api_echo) (ascii ''text'') []))"
proof -
  have h1: "(None :: (pystr \<Rightarrow> pystr \<Rightarrow> exn + pystr) option) = None \<or> ascii ''sk-1'' = []"
    by simp
  have h2: "Some api_echo = None \<or> ([] :: pystr) = []"
    by simp
  from evaluate_proposal_guards [OF h1, of "ascii ''text''"]
    evaluate_proposal_guards [OF h2, of "ascii ''text''"] h1 h2
  show ?thesis
    by blast
qed

end
